theory Spec2Isabelle
  imports Complex_Main "HOL-Library.Char_ord" "HOL-Library.List_Lexorder"
begin

section \<open>Tune-Central: the recommendation service and the catalog build script\<close>

text \<open>
  The development embeds the two Python files of the repository: \<^verbatim>\<open>app.py\<close> (the Flask
  service: similar songs, trending, songs by mood) and \<^verbatim>\<open>fix_database.py\<close> (the script
  that builds the \<^verbatim>\<open>songs\<close> table). Data frames and tables are lists of rows in row order,
  numeric cells are reals (popularity an integer), every cell is present, and a string is
  a list of 8-bit characters, which is what the \<^verbatim>\<open>latin-1\<close> decoding of the CSV files yields.
\<close>

subsection \<open>Rows\<close>

text \<open>A row of \<^verbatim>\<open>datasetmusic.csv\<close>: the columns the two programs read.\<close>

record raw_song =
  name :: string
  artists :: string
  popularity :: int
  valence :: real
  energy :: real
  danceability :: real
  tempo :: real
  speechiness :: real
  liveness :: real

text \<open>A row with the two columns \<^verbatim>\<open>fix_database.py\<close> adds; also the row type of \<^verbatim>\<open>df_scaled\<close>.\<close>

record song = raw_song +
  play_count :: int
  title :: string

subsection \<open>Python values and failures\<close>

datatype exn = FileNotFoundError | KeyError | IndexError | ValueError | IntegrityError | DatabaseError

text \<open>\<^verbatim>\<open>xs[start:stop]\<close> on a list: a negative bound counts from the end, both are clamped.\<close>

definition slice :: "'a list \<Rightarrow> int \<Rightarrow> int \<Rightarrow> 'a list" where
  "slice xs start stop =
     (let n = int (length xs);
          clamp = (\<lambda>i. if i < 0 then max 0 (i + n) else min i n);
          a = clamp start;
          b = clamp stop
      in take (nat (b - a)) (drop (nat a) xs))"

text \<open>
  \<^verbatim>\<open>sorted(xs, key=key, reverse=True)\<close>: CPython reverses the list, sorts it stably in
  ascending key order and reverses the result, so that equal keys keep their input order.
\<close>

definition sorted_reverse :: "('a \<Rightarrow> 'k::linorder) \<Rightarrow> 'a list \<Rightarrow> 'a list" where
  "sorted_reverse key xs = rev (sort_key key (rev xs))"

subsection \<open>\<^verbatim>\<open>app.py\<close>: the state loaded at startup\<close>

record app_state =
  df_scaled :: "song list"
  similarity_matrix :: "real list list"

text \<open>
  \<^verbatim>\<open>Series.drop_duplicates()\<close> removes the entries whose \<^emph>\<open>value\<close> occurred before (the
  index labels play no role) and keeps the first of each.
\<close>

fun drop_duplicates :: "'v list \<Rightarrow> ('k \<times> 'v) list \<Rightarrow> ('k \<times> 'v) list" where
  "drop_duplicates seen [] = []"
| "drop_duplicates seen ((k, v) # es) =
     (if v \<in> set seen then drop_duplicates seen es
      else (k, v) # drop_duplicates (v # seen) es)"

text \<open>
  \<^verbatim>\<open>indices = pd.Series(df_scaled.index, index=df_scaled['title']).drop_duplicates()\<close>:
  the entries (label, value) of the series, the label a title and the value its row position.
\<close>

definition indices :: "song list \<Rightarrow> (string \<times> nat) list" where
  "indices df = drop_duplicates [] (zip (map title df) [0..<length df])"

text \<open>
  \<^verbatim>\<open>indices[song_title]\<close>: a missing label raises \<^verbatim>\<open>KeyError\<close>, a label that occurs once
  gives its value, a label that occurs several times gives the series of its values.
\<close>

datatype index = Scalar nat | Several "nat list"

definition getitem :: "(string \<times> nat) list \<Rightarrow> string \<Rightarrow> exn + index" where
  "getitem series label =
     (case map snd (filter (\<lambda>e. fst e = label) series) of
        [] \<Rightarrow> Inl KeyError
      | [v] \<Rightarrow> Inr (Scalar v)
      | vs \<Rightarrow> Inr (Several vs))"

text \<open>The startup block (lines 11 to 25); a file that is absent is \<open>None\<close>.\<close>

definition startup :: "song list option \<Rightarrow> real list list option \<Rightarrow> exn + app_state" where
  "startup api_data_csv similarity_matrix_npy =
     (case api_data_csv of
        None \<Rightarrow> Inl FileNotFoundError
      | Some df \<Rightarrow>
          (case similarity_matrix_npy of
             None \<Rightarrow> Inl FileNotFoundError
           | Some m \<Rightarrow> Inr \<lparr>df_scaled = df, similarity_matrix = m\<rparr>))"

subsection \<open>\<^verbatim>\<open>get_recommendations\<close>\<close>

text \<open>What the function gives back: the error string, the series of titles, or an exception.\<close>

datatype recs = Error_str string | Titles "string list" | Raises exn

definition not_found :: "string \<Rightarrow> string" where
  "not_found song_title =
     ''Error: Song '' @ [CHR 0x27] @ song_title @ [CHR 0x27] @ '' not found in the dataset.''"

text \<open>Steps 2 and 3: the enumerated row of the matrix, sorted by score, highest first.\<close>

definition sim_scores_sorted :: "real list \<Rightarrow> (nat \<times> real) list" where
  "sim_scores_sorted row = sorted_reverse snd (enumerate 0 row)"

text \<open>\<^verbatim>\<open>series.iloc[positions]\<close>: a position out of bounds raises \<^verbatim>\<open>IndexError\<close>.\<close>

definition iloc :: "string list \<Rightarrow> nat list \<Rightarrow> recs" where
  "iloc series positions =
     (if \<forall>p \<in> set positions. p < length series
      then Titles (map (\<lambda>p. series ! p) positions)
      else Raises IndexError)"

text \<open>
  Step 2, the lookup \<^verbatim>\<open>similarity_matrix[idx]\<close>. For a position it is that row of the
  matrix. When the title labels several rows, \<^verbatim>\<open>idx\<close> is a series and the lookup gives
  one row per occurrence; the list that is enumerated and sorted then holds arrays, and
  comparing two arrays raises \<^verbatim>\<open>ValueError\<close> unless each holds exactly one score.
\<close>

definition matrix_rows :: "real list list \<Rightarrow> index \<Rightarrow> exn + real list" where
  "matrix_rows m idx =
     (case idx of
        Scalar i \<Rightarrow> if length m \<le> i then Inl IndexError else Inr (m ! i)
      | Several vs \<Rightarrow>
          if \<exists>v \<in> set vs. length m \<le> v then Inl IndexError
          else if \<forall>v \<in> set vs. length (m ! v) = 1 then Inr (map (\<lambda>v. hd (m ! v)) vs)
          else Inl ValueError)"

text \<open>
  \<^verbatim>\<open>get_recommendations(song_title, top_n=5)\<close>; the argument \<open>None\<close> is the omitted
  \<^verbatim>\<open>top_n\<close>. The \<^verbatim>\<open>except\<close> clause catches \<^verbatim>\<open>KeyError\<close> alone.
\<close>

definition get_recommendations :: "app_state \<Rightarrow> string \<Rightarrow> int option \<Rightarrow> recs" where
  "get_recommendations st song_title top_n_arg =
     (let top_n = (case top_n_arg of None \<Rightarrow> 5 | Some k \<Rightarrow> k) in
      case getitem (indices (df_scaled st)) song_title of
        Inl KeyError \<Rightarrow> Error_str (not_found song_title)
      | Inl e \<Rightarrow> Raises e
      | Inr idx \<Rightarrow>
          (case matrix_rows (similarity_matrix st) idx of
             Inl e \<Rightarrow> Raises e
           | Inr row \<Rightarrow>
               let sim_scores = sim_scores_sorted row;
                   sim_scores = slice sim_scores 1 (top_n + 1);
                   song_indices = map fst sim_scores
               in iloc (map title (df_scaled st)) song_indices))"

subsection \<open>The HTTP handlers\<close>

text \<open>
  The body of a response and its status. \<open>Exception_json e\<close> is the body
  \<^verbatim>\<open>{'error': str(e)}\<close> of a caught exception, \<open>Unhandled e\<close> the answer of the framework
  to an exception no handler caught.
\<close>

datatype json =
    Error_json string
  | Exception_json exn
  | Recommendations_json "string list"
  | Mood_json "(string \<times> string \<times> string) list"
  | Trending_json "string \<times> string \<times> int" "string \<times> nat"
  | Unhandled exn

type_synonym response = "json \<times> nat"

definition parameter_required :: "string \<Rightarrow> string" where
  "parameter_required p = ''A '' @ [CHR 0x22] @ p @ [CHR 0x22] @ '' query parameter is required.''"

text \<open>\<^verbatim>\<open>recommend_songs\<close>; the argument is \<^verbatim>\<open>request.args.get('song')\<close>.\<close>

definition recommend_songs :: "app_state \<Rightarrow> string option \<Rightarrow> response" where
  "recommend_songs st song_arg =
     (case song_arg of
        None \<Rightarrow> (Error_json (parameter_required ''song''), 400)
      | Some song_title \<Rightarrow>
          if song_title = [] then (Error_json (parameter_required ''song''), 400)
          else
            (case get_recommendations st song_title (Some 5) of
               Error_str recs \<Rightarrow> (Error_json recs, 404)
             | Titles recs \<Rightarrow> (Recommendations_json recs, 200)
             | Raises e \<Rightarrow> (Unhandled e, 500)))"

subsection \<open>\<^verbatim>\<open>get_trending\<close>\<close>

text \<open>\<^verbatim>\<open>Series.idxmax()\<close>: the first position of the maximum; an empty series raises.\<close>

definition idxmax :: "int list \<Rightarrow> exn + nat" where
  "idxmax xs =
     (if xs = [] then Inl ValueError
      else Inr (length (takeWhile (\<lambda>x. x \<noteq> Max (set xs)) xs)))"

text \<open>
  \<^verbatim>\<open>Series.mode()\<close>: the values that occur most often, each once, in ascending order
  (strings compare character by character, by code point).
\<close>

definition mode :: "string list \<Rightarrow> string list" where
  "mode xs =
     sort (remdups (filter (\<lambda>a. count_list xs a = Max (set (map (count_list xs) xs))) xs))"

text \<open>\<^verbatim>\<open>Series.value_counts().loc[label]\<close>\<close>

definition value_counts :: "string list \<Rightarrow> string \<Rightarrow> nat" where
  "value_counts xs label = count_list xs label"

definition get_trending :: "app_state \<Rightarrow> response" where
  "get_trending st =
     (let df = df_scaled st in
      case idxmax (map popularity df) of
        Inl e \<Rightarrow> (Exception_json e, 500)
      | Inr popular_song_idx \<Rightarrow>
          let popular_song = df ! popular_song_idx;
              most_popular_song_details =
                (name popular_song, artists popular_song, popularity popular_song)
          in (case mode (map artists df) of
                [] \<Rightarrow> (Exception_json KeyError, 500)
              | most_frequent_artist_name # _ \<Rightarrow>
                  let artist_song_count = value_counts (map artists df) most_frequent_artist_name
                  in (Trending_json most_popular_song_details
                        (most_frequent_artist_name, artist_song_count), 200)))"

subsection \<open>\<^verbatim>\<open>recommend_mood\<close>\<close>

text \<open>
  The \<^verbatim>\<open>WHERE\<close> clause the handler builds is a conjunction of comparisons of a column
  with a constant; the only operators it writes are \<^verbatim>\<open>>\<close> and \<^verbatim>\<open><\<close>.
\<close>

datatype column = Valence | Energy | Danceability | Tempo | Speechiness | Liveness

datatype comparison = Gt | Lt

type_synonym condition = "column \<times> comparison \<times> real"

fun cell :: "song \<Rightarrow> column \<Rightarrow> real" where
  "cell s Valence = valence s"
| "cell s Energy = energy s"
| "cell s Danceability = danceability s"
| "cell s Tempo = tempo s"
| "cell s Speechiness = speechiness s"
| "cell s Liveness = liveness s"

fun satisfies :: "song \<Rightarrow> condition \<Rightarrow> bool" where
  "satisfies s (c, Gt, v) = (v < cell s c)"
| "satisfies s (c, Lt, v) = (cell s c < v)"

text \<open>The chain of \<^verbatim>\<open>if\<close>/\<^verbatim>\<open>elif\<close> on the mood (lines 131 to 155); \<open>None\<close> is its \<^verbatim>\<open>else\<close>.\<close>

definition query_filter :: "string \<Rightarrow> condition list option" where
  "query_filter mood =
     (if mood = ''happy'' then
        Some [(Valence, Gt, 0.7), (Energy, Gt, 0.6), (Danceability, Gt, 0.5)]
      else if mood = ''sad'' then
        Some [(Valence, Lt, 0.3), (Energy, Lt, 0.4), (Tempo, Lt, 100)]
      else if mood = ''energetic'' then
        Some [(Energy, Gt, 0.8), (Tempo, Gt, 120)]
      else if mood = ''calm'' then
        Some [(Energy, Lt, 0.3), (Tempo, Lt, 100), (Valence, Gt, 0.4)]
      else if mood = ''romantic'' then
        Some [(Valence, Gt, 0.6), (Energy, Lt, 0.6), (Speechiness, Lt, 0.08)]
      else if mood = ''angry'' then
        Some [(Energy, Gt, 0.8), (Valence, Lt, 0.3), (Tempo, Gt, 110)]
      else if mood = ''nostalgic'' then
        Some [(Valence, Gt, 0.5), (Energy, Lt, 0.5), (Tempo, Lt, 110)]
      else if mood = ''focused'' then
        Some [(Speechiness, Lt, 0.05), (Energy, Lt, 0.3), (Liveness, Lt, 0.1)]
      else if mood = ''chill'' then
        Some [(Energy, Lt, 0.4), (Tempo, Lt, 110), (Liveness, Lt, 0.2)]
      else if mood = ''workout'' then
        Some [(Energy, Gt, 0.75), (Tempo, Gt, 120), (Danceability, Gt, 0.6)]
      else if mood = ''party'' then
        Some [(Energy, Gt, 0.7), (Danceability, Gt, 0.7), (Valence, Gt, 0.6)]
      else None)"

text \<open>
  \<^verbatim>\<open>SELECT name, artists, title FROM songs WHERE ... ORDER BY popularity DESC LIMIT 5\<close>.
  SQL leaves the order of rows of equal popularity open; the model keeps the table's.
\<close>

definition select_songs :: "song list \<Rightarrow> condition list \<Rightarrow> (string \<times> string \<times> string) list" where
  "select_songs songs conds =
     map (\<lambda>s. (name s, artists s, title s))
       (take 5 (sorted_reverse popularity (filter (\<lambda>s. list_all (satisfies s) conds) songs)))"

text \<open>
  The handler from the mood table on (lines 131 to 181). The \<^verbatim>\<open>songs\<close> table of
  \<^verbatim>\<open>music.db\<close> is \<open>None\<close> when the query raises (no such file or table).
\<close>

definition mood_recommendations :: "song list option \<Rightarrow> string \<Rightarrow> response" where
  "mood_recommendations music_db mood =
     (case query_filter mood of
        None \<Rightarrow> (Error_json ''Invalid mood provided.'', 400)
      | Some conds \<Rightarrow>
          (case music_db of
             None \<Rightarrow> (Exception_json DatabaseError, 500)
           | Some songs \<Rightarrow> (Mood_json (select_songs songs conds), 200)))"

text \<open>\<^verbatim>\<open>recommend_mood\<close>; the argument is \<^verbatim>\<open>request.args.get('mood')\<close>.\<close>

definition recommend_mood :: "song list option \<Rightarrow> string option \<Rightarrow> response" where
  "recommend_mood music_db mood_arg =
     (case mood_arg of
        None \<Rightarrow> (Error_json (parameter_required ''mood''), 400)
      | Some mood \<Rightarrow>
          if mood = [] then (Error_json (parameter_required ''mood''), 400)
          else mood_recommendations music_db mood)"

text \<open>The eleven labels of the mood table.\<close>

definition mood_labels :: "string list" where
  "mood_labels = [''happy'', ''sad'', ''energetic'', ''calm'', ''romantic'', ''angry'',
     ''nostalgic'', ''focused'', ''chill'', ''workout'', ''party'']"

subsection \<open>\<^verbatim>\<open>fix_database.py\<close>\<close>

text \<open>\<^verbatim>\<open>df.drop_duplicates(subset=['name', 'artists'], keep='first')\<close>\<close>

fun drop_duplicates_subset :: "(string \<times> string) list \<Rightarrow> raw_song list \<Rightarrow> raw_song list" where
  "drop_duplicates_subset seen [] = []"
| "drop_duplicates_subset seen (r # rs) =
     (if (name r, artists r) \<in> set seen then drop_duplicates_subset seen rs
      else r # drop_duplicates_subset ((name r, artists r) # seen) rs)"

definition popularity_threshold :: int where
  "popularity_threshold = 30"

text \<open>Step 4: the two added columns.\<close>

definition add_columns :: "raw_song \<Rightarrow> song" where
  "add_columns r =
     \<lparr>name = name r, artists = artists r, popularity = popularity r, valence = valence r,
      energy = energy r, danceability = danceability r, tempo = tempo r,
      speechiness = speechiness r, liveness = liveness r,
      play_count = 0, title = name r @ '' by '' @ artists r\<rparr>"

text \<open>Steps 3 and 4: the frame \<^verbatim>\<open>df_processed\<close> that is handed to \<^verbatim>\<open>to_sql\<close>.\<close>

definition df_processed :: "raw_song list \<Rightarrow> song list" where
  "df_processed df =
     (let df_processed = drop_duplicates_subset [] df;
          df_processed = filter (\<lambda>r. popularity_threshold < popularity r) df_processed
      in map add_columns df_processed)"

text \<open>
  The script: the argument is \<^verbatim>\<open>datasetmusic.csv\<close> (\<open>None\<close> when absent), the result
  the rows of the \<^verbatim>\<open>songs\<close> table that \<^verbatim>\<open>to_sql\<close> wrote. The column \<^verbatim>\<open>title\<close> is declared
  the primary key, so two rows with one title make \<^verbatim>\<open>to_sql\<close> raise.
\<close>

definition fix_database :: "raw_song list option \<Rightarrow> exn + song list" where
  "fix_database original_csv =
     (case original_csv of
        None \<Rightarrow> Inl FileNotFoundError
      | Some df \<Rightarrow>
          if distinct (map title (df_processed df)) then Inr (df_processed df)
          else Inl IntegrityError)"

subsection \<open>The tie-break of the specification\<close>

text \<open>
  The most frequent artist as the specification words it: of the values that occur in the
  greatest number of rows, the one whose first occurrence is the earliest.
\<close>

definition spec_most_frequent_artist :: "string list \<Rightarrow> string" where
  "spec_most_frequent_artist xs =
     hd (filter (\<lambda>a. \<forall>b \<in> set xs. count_list xs b \<le> count_list xs a) xs)"

subsection \<open>The invariant of the loaded data\<close>

text \<open>
  The similarity matrix is square and its dimension is the number of rows of the catalog.
  The programs never check it; the results on recommendations assume it where they need it.
\<close>

definition square_of_size :: "real list list \<Rightarrow> nat \<Rightarrow> bool" where
  "square_of_size m n \<longleftrightarrow> length m = n \<and> list_all (\<lambda>row. length row = n) m"

subsection \<open>Example data\<close>

definition example_song :: "string \<Rightarrow> string \<Rightarrow> int \<Rightarrow> real \<Rightarrow> real \<Rightarrow> raw_song" where
  "example_song n a p e t =
     \<lparr>name = n, artists = a, popularity = p, valence = 0.5, energy = e, danceability = 0.5,
      tempo = t, speechiness = 0.1, liveness = 0.1\<rparr>"

definition song_A :: song where
  "song_A = add_columns (example_song ''A'' ''X'' 10 0.9 130)"

definition song_B :: song where
  "song_B = add_columns (example_song ''B'' ''Y'' 50 0.2 90)"

definition song_C :: song where
  "song_C = add_columns (example_song ''C'' ''X'' 40 0.5 100)"

text \<open>
  Three songs, the second and the third with the same features: their similarity is 1, as
  is that of each song with itself, and both are as similar to the first.
\<close>

definition example_state :: app_state where
  "example_state =
     \<lparr>df_scaled = [song_A, song_B, song_C],
      similarity_matrix = [[1, 0.2, 0.2], [0.2, 1, 1], [0.2, 1, 1]]\<rparr>"

text \<open>Two songs by two artists, the artist of the first row the later in string order.\<close>

definition tie_state :: app_state where
  "tie_state = \<lparr>df_scaled = [song_B, song_A], similarity_matrix = [[1, 0.2], [0.2, 1]]\<rparr>"

text \<open>A raw data set: a duplicate of (name, artists) and two rows at or below the threshold.\<close>

definition example_csv :: "raw_song list" where
  "example_csv =
     [example_song ''A'' ''X'' 10 0.9 130, example_song ''B'' ''Y'' 50 0.2 90,
      example_song ''B'' ''Y'' 20 0.2 90, example_song ''D'' ''Z'' 30 0.5 100]"

lemmas example_defs =
  example_state_def song_A_def song_B_def song_C_def add_columns_def example_song_def

lemmas rec_defs =
  get_recommendations_def indices_def getitem_def matrix_rows_def sim_scores_sorted_def
  sorted_reverse_def slice_def iloc_def not_found_def

section \<open>The title index\<close>

text \<open>
  The values of the series are the row positions, all different, so \<^verbatim>\<open>drop_duplicates\<close>
  removes nothing: a title that labels several rows keeps all of them.
\<close>

lemma drop_duplicates_id:
  "distinct (map snd es) \<Longrightarrow> set (map snd es) \<inter> set seen = {} \<Longrightarrow> drop_duplicates seen es = es"
  by (induction es arbitrary: seen) auto

lemma indices_eq: "indices df = zip (map title df) [0..<length df]"
  unfolding indices_def by (rule drop_duplicates_id) simp_all

lemma positions_absent:
  "t \<notin> set xs \<Longrightarrow> filter (\<lambda>e. fst e = t) (zip xs [k..<k + length xs]) = []"
  by (auto simp: filter_empty_conv dest: set_zip_leftD)

lemma positions_once:
  "distinct xs \<Longrightarrow> i < length xs \<Longrightarrow>
   map snd (filter (\<lambda>e. fst e = xs ! i) (zip xs [k..<k + length xs])) = [k + i]"
proof (induction xs arbitrary: k i)
  case Nil
  then show ?case by simp
next
  case (Cons x xs)
  have z: "zip (x # xs) [k..<Suc (k + length xs)] = (x, k) # zip xs [Suc k..<Suc (k + length xs)]"
    by (simp add: upt_conv_Cons del: upt_Suc)
  show ?case
  proof (cases i)
    case 0
    with Cons.prems show ?thesis
      using positions_absent[of x xs "Suc k"] by (simp add: z del: upt_Suc)
  next
    case (Suc j)
    with Cons.prems have "xs ! j \<noteq> x" by auto
    with Suc Cons.prems Cons.IH[of j "Suc k"] show ?thesis
      by (simp add: z del: upt_Suc)
  qed
qed

lemma getitem_missing: "t \<notin> set (map title df) \<Longrightarrow> getitem (indices df) t = Inl KeyError"
  using positions_absent[of t "map title df" 0] by (simp add: getitem_def indices_eq)

lemma getitem_scalar:
  "distinct (map title df) \<Longrightarrow> i < length df \<Longrightarrow>
   getitem (indices df) (title (df ! i)) = Inr (Scalar i)"
  using positions_once[of "map title df" i 0] by (simp add: getitem_def indices_eq)

section \<open>Sorting and slicing\<close>

text \<open>
  Inserting into a list that is ordered by key, and by \<open>R\<close> among equal keys, keeps it so
  when the new element is \<open>R\<close>-before all the others: the stable sort orders equal keys as
  the input does.
\<close>

lemma insort_key_sorted_wrt:
  fixes f :: "'a \<Rightarrow> 'k::linorder"
  assumes "sorted_wrt (\<lambda>a b. f a < f b \<or> (f a = f b \<and> R a b)) ys" and "\<forall>y \<in> set ys. R z y"
  shows "sorted_wrt (\<lambda>a b. f a < f b \<or> (f a = f b \<and> R a b)) (insort_key f z ys)"
  using assms
proof (induction ys)
  case Nil
  then show ?case by simp
next
  case (Cons y ys)
  show ?case
  proof (cases "f z \<le> f y")
    case True
    have "f z < f b \<or> (f z = f b \<and> R z b)" if "b \<in> set (y # ys)" for b
    proof -
      have "f y \<le> f b" using Cons.prems(1) that by auto
      with True have "f z \<le> f b" by simp
      moreover have "R z b" using Cons.prems(2) that by auto
      ultimately show ?thesis by auto
    qed
    with True Cons.prems(1) show ?thesis by simp
  next
    case False
    with Cons show ?thesis by (auto simp: set_insort_key)
  qed
qed

lemma sort_key_sorted_wrt:
  fixes f :: "'a \<Rightarrow> 'k::linorder"
  shows "sorted_wrt R zs \<Longrightarrow>
    sorted_wrt (\<lambda>a b. f a < f b \<or> (f a = f b \<and> R a b)) (sort_key f zs)"
  by (induction zs) (simp_all add: sort_key_simps insort_key_sorted_wrt)

lemma sorted_reverse_sorted_wrt:
  fixes key :: "'a \<Rightarrow> 'k::linorder"
  assumes "sorted_wrt R xs"
  shows "sorted_wrt (\<lambda>a b. key b < key a \<or> (key a = key b \<and> R a b)) (sorted_reverse key xs)"
proof -
  have "sorted_wrt (\<lambda>a b. R b a) (rev xs)"
    using assms by (simp add: sorted_wrt_rev)
  then have "sorted_wrt (\<lambda>a b. key a < key b \<or> (key a = key b \<and> R b a)) (sort_key key (rev xs))"
    by (rule sort_key_sorted_wrt)
  then have "sorted_wrt (\<lambda>b a. key a < key b \<or> (key a = key b \<and> R b a))
      (rev (sort_key key (rev xs)))"
    by (simp add: sorted_wrt_rev)
  then show ?thesis
    unfolding sorted_reverse_def by (rule sorted_wrt_mono_rel[rotated]) auto
qed

lemma set_sorted_reverse: "set (sorted_reverse key xs) = set xs"
  by (simp add: sorted_reverse_def)

lemma length_sorted_reverse: "length (sorted_reverse key xs) = length xs"
  by (simp add: sorted_reverse_def)

lemma enumerate_positions_increasing: "sorted_wrt (\<lambda>a b. fst a < fst b) (enumerate k row)"
proof -
  have "sorted_wrt (<) (map fst (enumerate k row))" by simp
  then show ?thesis by (simp only: sorted_wrt_map)
qed

lemma sim_scores_sorted_ranked:
  "sorted_wrt (\<lambda>a b. snd b < snd a \<or> (snd a = snd b \<and> fst a < fst b)) (sim_scores_sorted row)"
  unfolding sim_scores_sorted_def
  by (rule sorted_reverse_sorted_wrt) (rule enumerate_positions_increasing)

lemma set_sim_scores_sorted: "set (sim_scores_sorted row) = set (enumerate 0 row)"
  by (simp add: sim_scores_sorted_def set_sorted_reverse)

lemma length_sim_scores_sorted: "length (sim_scores_sorted row) = length row"
  by (simp add: sim_scores_sorted_def length_sorted_reverse)

lemma positions_sim_scores_sorted: "p \<in> set (sim_scores_sorted row) \<Longrightarrow> fst p < length row"
  by (auto simp: set_sim_scores_sorted in_set_enumerate_eq)

lemma length_slice_top: "0 < k \<Longrightarrow> length (slice xs 1 (k + 1)) = min (nat k) (length xs - 1)"
  by (auto simp: slice_def Let_def min_def max_def)

lemma length_slice_nonpositive:
  "k \<le> 0 \<Longrightarrow> length (slice xs 1 (k + 1)) = (if - 1 \<le> k then 0 else nat (int (length xs) + k))"
  by (auto simp: slice_def Let_def min_def max_def)

text \<open>The slice for a \<^verbatim>\<open>top_n\<close> that is not positive, as a part of the list.\<close>

lemma slice_nonpositive:
  "k \<le> 0 \<Longrightarrow> slice xs 1 (k + 1) =
     (if - 1 \<le> k then [] else tl (take (length xs - nat (- k - 1)) xs))"
proof (cases xs)
  case Nil
  then show ?thesis by (simp add: slice_def)
next
  case (Cons x xs')
  assume k: "k \<le> 0"
  show ?thesis
  proof (cases "- 1 \<le> k")
    case True
    with k show ?thesis by (auto simp: slice_def Let_def min_def max_def)
  next
    case False
    then have "slice xs 1 (k + 1) = take (nat (max 0 (k + 1 + int (length xs)) - 1)) (tl xs)"
      using Cons by (simp add: slice_def Let_def drop_Suc)
    also have "nat (max 0 (k + 1 + int (length xs)) - 1) = length xs - nat (- k - 1) - 1"
      using False by (auto simp: max_def)
    finally show ?thesis using False by (simp add: tl_take)
  qed
qed

lemma set_slice: "set (slice xs a b) \<subseteq> set xs"
  unfolding slice_def Let_def by (meson set_take_subset set_drop_subset subset_trans)

lemma set_slice_tl: "set (slice xs 1 b) \<subseteq> set (tl xs)"
proof (cases xs)
  case Nil
  then show ?thesis by (simp add: slice_def)
next
  case (Cons x xs')
  then have "slice xs 1 b =
      take (nat ((if b < 0 then max 0 (b + int (length xs)) else min b (int (length xs))) - 1)) xs'"
    by (simp add: slice_def Let_def)
  then show ?thesis using Cons by (simp add: set_take_subset)
qed

lemma distinct_positions_sim_scores_sorted: "distinct (map fst (sim_scores_sorted row))"
proof (rule card_distinct)
  have "set (map fst (sim_scores_sorted row)) = set (map fst (enumerate 0 row))"
    by (simp only: set_map set_sim_scores_sorted)
  also have "\<dots> = {0..<length row}" by simp
  finally show "card (set (map fst (sim_scores_sorted row))) =
      length (map fst (sim_scores_sorted row))"
    by (simp add: length_sim_scores_sorted)
qed

text \<open>
  The entry of position \<open>idx\<close> is the first of the ranking when no other position has a
  higher score and no earlier position an equal one.
\<close>

lemma sim_scores_sorted_first:
  assumes idx: "idx < length row"
    and top: "\<forall>j < length row. j \<noteq> idx \<longrightarrow>
        row ! j < row ! idx \<or> (row ! j = row ! idx \<and> idx < j)"
  shows "\<exists>rest. sim_scores_sorted row = (idx, row ! idx) # rest \<and> idx \<notin> fst ` set rest"
proof -
  let ?r = "sim_scores_sorted row"
  have len: "length ?r = length row" by (rule length_sim_scores_sorted)
  with idx obtain p rest where r: "?r = p # rest" by (cases ?r) auto
  have "p \<in> set (enumerate 0 row)" using r set_sim_scores_sorted[of row] by auto
  then obtain j where j: "j < length row" "p = (j, row ! j)"
    by (auto simp: in_set_enumerate_eq)
  have self: "(idx, row ! idx) \<in> set ?r"
    using idx by (simp add: set_sim_scores_sorted in_set_enumerate_eq)
  have "j = idx"
  proof (rule ccontr)
    assume ne: "j \<noteq> idx"
    with self r j have "(idx, row ! idx) \<in> set rest" by auto
    with sim_scores_sorted_ranked[of row] r j
    have "row ! idx < row ! j \<or> (row ! j = row ! idx \<and> j < idx)" by auto
    with top j ne show False by auto
  qed
  moreover have "idx \<notin> fst ` set rest"
    using distinct_positions_sim_scores_sorted[of row] r j \<open>j = idx\<close> by auto
  ultimately show ?thesis using r j by simp
qed

section \<open>Recommendations\<close>

lemma get_recommendations_scalar:
  assumes "getitem (indices (df_scaled st)) t = Inr (Scalar idx)"
    and "idx < length (similarity_matrix st)"
  shows "get_recommendations st t a =
    iloc (map title (df_scaled st))
      (map fst (slice (sim_scores_sorted (similarity_matrix st ! idx)) 1
         ((case a of None \<Rightarrow> 5 | Some k \<Rightarrow> k) + 1)))"
  using assms by (simp add: get_recommendations_def matrix_rows_def Let_def)

lemma iloc_in_range:
  "\<forall>p \<in> set ps. p < length series \<Longrightarrow> iloc series ps = Titles (map (\<lambda>p. series ! p) ps)"
  by (simp add: iloc_def)

text \<open>
  With titles that are all different and a matrix of the catalog's size, the function
  returns the titles of the ranking without its first entry, cut after \<^verbatim>\<open>top_n\<close>.
\<close>

lemma get_recommendations_titles:
  assumes d: "distinct (map title (df_scaled st))"
    and i: "idx < length (df_scaled st)"
    and sq: "square_of_size (similarity_matrix st) (length (df_scaled st))"
  shows "get_recommendations st (title (df_scaled st ! idx)) a =
    Titles (map (\<lambda>p. title (df_scaled st ! fst p))
      (slice (sim_scores_sorted (similarity_matrix st ! idx)) 1
         ((case a of None \<Rightarrow> 5 | Some k \<Rightarrow> k) + 1)))"
proof -
  let ?row = "similarity_matrix st ! idx"
  let ?sl = "slice (sim_scores_sorted ?row) 1 ((case a of None \<Rightarrow> 5 | Some k \<Rightarrow> k) + 1)"
  from sq i have len: "idx < length (similarity_matrix st)"
    and row: "length ?row = length (df_scaled st)"
    by (simp_all add: square_of_size_def list_all_length)
  have bound: "fst p < length (df_scaled st)" if "p \<in> set ?sl" for p
    using that set_slice[of "sim_scores_sorted ?row"] positions_sim_scores_sorted[of p ?row] row
    by auto
  then have "iloc (map title (df_scaled st)) (map fst ?sl) =
      Titles (map (\<lambda>p. map title (df_scaled st) ! p) (map fst ?sl))"
    by (intro iloc_in_range) auto
  also have "\<dots> = Titles (map (\<lambda>p. title (df_scaled st ! fst p)) ?sl)"
    using bound by simp
  finally show ?thesis
    using get_recommendations_scalar[OF getitem_scalar[OF d i] len, of a] by simp
qed

text \<open>
  The queried title is left out when its row ranks first: when no other position has a
  higher score in its row of the matrix and no earlier position an equal one.
\<close>

lemma recommend_excludes_query_when_ranked_first:
  assumes d: "distinct (map title (df_scaled st))"
    and i: "idx < length (df_scaled st)"
    and sq: "square_of_size (similarity_matrix st) (length (df_scaled st))"
    and top: "\<forall>j < length (df_scaled st). j \<noteq> idx \<longrightarrow>
        similarity_matrix st ! idx ! j < similarity_matrix st ! idx ! idx \<or>
        (similarity_matrix st ! idx ! j = similarity_matrix st ! idx ! idx \<and> idx < j)"
  shows "\<exists>recs. get_recommendations st (title (df_scaled st ! idx)) a = Titles recs \<and>
    title (df_scaled st ! idx) \<notin> set recs"
proof -
  let ?row = "similarity_matrix st ! idx"
  let ?sl = "slice (sim_scores_sorted ?row) 1 ((case a of None \<Rightarrow> 5 | Some k \<Rightarrow> k) + 1)"
  from sq i have row: "length ?row = length (df_scaled st)"
    by (simp add: square_of_size_def list_all_length)
  with i top obtain rest where r: "sim_scores_sorted ?row = (idx, ?row ! idx) # rest"
    and nin: "idx \<notin> fst ` set rest"
    using sim_scores_sorted_first[of idx ?row] by auto
  have "title (df_scaled st ! fst p) \<noteq> title (df_scaled st ! idx)" if "p \<in> set ?sl" for p
  proof -
    from that have "p \<in> set rest" using set_slice_tl[of "sim_scores_sorted ?row"] r by auto
    with nin have "fst p \<noteq> idx" by auto
    moreover have "fst p < length (df_scaled st)"
      using \<open>p \<in> set rest\<close> positions_sim_scores_sorted[of p ?row] r row by auto
    ultimately show ?thesis
      using d i nth_eq_iff_index_eq[of "map title (df_scaled st)" "fst p" idx] by simp
  qed
  then have "title (df_scaled st ! idx) \<notin> (\<lambda>p. title (df_scaled st ! fst p)) ` set ?sl"
    by force
  then show ?thesis
    unfolding get_recommendations_titles[OF d i sq] by simp
qed

text \<open>
  C1. The recommendations for a title of the catalog never contain that title: the row
  of the queried song is excluded whatever its rank. The function excludes the first entry
  of the ranking instead. In the example catalog the songs B and C have similarity 1, as
  each has with itself; the stable sort ranks B, the earlier row, first, so a query for C
  drops B and returns C itself as its best recommendation.
\<close>

theorem recommend_returns_query_on_tie:
  "get_recommendations example_state ''C by X'' None = Titles [''C by X'', ''A by X'']"
  by (simp add: rec_defs example_defs)

text \<open>
  C2. For a title of the catalog and a positive \<^verbatim>\<open>top_n\<close>, the function returns exactly
  \<open>min top_n (n - 1)\<close> titles, \<open>n\<close> the number of rows of the catalog. The catalog's titles
  are all different and the matrix is square of dimension \<open>n\<close>, as the data model has them.
\<close>

theorem recommend_length:
  assumes "distinct (map title (df_scaled st))"
    and "song_title \<in> set (map title (df_scaled st))"
    and "square_of_size (similarity_matrix st) (length (df_scaled st))"
    and "0 < top_n"
  shows "\<exists>recs. get_recommendations st song_title (Some top_n) = Titles recs \<and>
    length recs = min (nat top_n) (length (df_scaled st) - 1)"
proof -
  from assms(2) obtain idx where i: "idx < length (df_scaled st)"
    and t: "song_title = title (df_scaled st ! idx)"
    by (auto simp: in_set_conv_nth)
  from assms(3) i have "length (similarity_matrix st ! idx) = length (df_scaled st)"
    by (simp add: square_of_size_def list_all_length)
  then show ?thesis
    unfolding t get_recommendations_titles[OF assms(1) i assms(3)]
    using assms(4) by (simp add: length_slice_top length_sim_scores_sorted)
qed

theorem recommend_length_witness:
  "\<exists>recs. get_recommendations example_state ''A by X'' (Some 5) = Titles recs \<and> length recs = 2"
  using recommend_length[of example_state "''A by X''" 5]
  by (simp add: rec_defs example_defs square_of_size_def)

text \<open>
  C3. The ranking over the pairs (position, score) of a row of the matrix is ordered by
  score, highest first, and pairs of equal score by position, lowest first; it holds the
  pairs of the row, each once. For a title of the catalog the function returns the titles
  at the positions of this ranking, from its second entry on, in the ranking's order.
\<close>

theorem ranking_sorted_stable:
  "sorted_wrt (\<lambda>a b. snd b < snd a \<or> (snd a = snd b \<and> fst a < fst b)) (sim_scores_sorted row) \<and>
   set (sim_scores_sorted row) = set (enumerate 0 row) \<and>
   length (sim_scores_sorted row) = length row \<and>
   (distinct (map title (df_scaled st)) \<and> idx < length (df_scaled st) \<and>
    square_of_size (similarity_matrix st) (length (df_scaled st)) \<longrightarrow>
    get_recommendations st (title (df_scaled st ! idx)) top_n =
      Titles (map (\<lambda>p. title (df_scaled st ! fst p))
        (slice (sim_scores_sorted (similarity_matrix st ! idx)) 1
           ((case top_n of None \<Rightarrow> 5 | Some k \<Rightarrow> k) + 1))))"
  using get_recommendations_titles[of st idx top_n]
  by (simp add: sim_scores_sorted_ranked set_sim_scores_sorted length_sim_scores_sorted)

theorem ranking_sorted_stable_witness:
  "sorted_wrt (\<lambda>a b. snd b < snd a \<or> (snd a = snd b \<and> fst a < fst b))
     (sim_scores_sorted [0.2, 1, 1]) \<and>
   sim_scores_sorted [0.2, 1, 1] = [(1, 1), (2, 1), (0, 0.2)] \<and>
   get_recommendations example_state ''A by X'' (Some 1) = Titles [''B by Y'']"
  using ranking_sorted_stable[of "[0.2, 1, 1]" example_state 0 "Some 1"]
  by (simp add: rec_defs example_defs square_of_size_def)

text \<open>
  C6. For a title that is not in the catalog the function returns the error string, which
  quotes the title, and no list; the handler answers it with status 404, the status of an
  expected condition.
\<close>

theorem recommend_not_found:
  assumes "song_title \<notin> set (map title (df_scaled st))"
  shows "get_recommendations st song_title top_n =
      Error_str (''Error: Song '' @ [CHR 0x27] @ song_title @ [CHR 0x27] @
        '' not found in the dataset.'') \<and>
    (song_title \<noteq> [] \<longrightarrow>
      recommend_songs st (Some song_title) = (Error_json (not_found song_title), 404))"
  using assms
  by (simp add: recommend_songs_def get_recommendations_def getitem_missing not_found_def)

theorem recommend_not_found_witness:
  "get_recommendations example_state ''Unknown Song'' (Some 5) =
     Error_str (''Error: Song '' @ [CHR 0x27] @ ''Unknown Song'' @ [CHR 0x27] @
       '' not found in the dataset.'') \<and>
   recommend_songs example_state (Some ''Unknown Song'') =
     (Error_json (not_found ''Unknown Song''), 404)"
  using recommend_not_found[of "''Unknown Song''" example_state "Some 5"]
  by (simp add: example_defs)

text \<open>
  C7 as the specification has it: a \<^verbatim>\<open>top_n\<close> that is zero or negative is refused. The
  function has no such check: for 0 it returns the empty list, for -2 the ranking without
  its first and its last entry.
\<close>

theorem recommend_nonpositive_top_n_counterexample:
  "get_recommendations example_state ''A by X'' (Some 0) = Titles [] \<and>
   get_recommendations example_state ''A by X'' (Some (- 2)) = Titles [''B by Y'']"
  by (simp add: rec_defs example_defs)

text \<open>
  C7, amended. For a title of the catalog and a \<^verbatim>\<open>top_n\<close> that is zero or negative the
  function returns a list, by the rules of slicing: the empty list for 0 and -1, and for
  \<open>top_n \<le> -2\<close> the titles, in the ranking's order, of the ranking of the title's row
  without its last \<open>- top_n - 1\<close> entries and without its first entry, \<open>n + top_n\<close> titles
  (none when that is negative). An omitted \<^verbatim>\<open>top_n\<close> is 5.
\<close>

theorem recommend_nonpositive_top_n:
  assumes "distinct (map title (df_scaled st))"
    and "song_title \<in> set (map title (df_scaled st))"
    and "square_of_size (similarity_matrix st) (length (df_scaled st))"
    and "top_n \<le> 0"
  shows "(\<exists>idx recs. idx < length (df_scaled st) \<and> title (df_scaled st ! idx) = song_title \<and>
      get_recommendations st song_title (Some top_n) = Titles recs \<and>
      recs = map (\<lambda>p. title (df_scaled st ! fst p))
        (if - 1 \<le> top_n then []
         else tl (take (length (df_scaled st) - nat (- top_n - 1))
           (sim_scores_sorted (similarity_matrix st ! idx)))) \<and>
      length recs = (if - 1 \<le> top_n then 0 else nat (int (length (df_scaled st)) + top_n))) \<and>
    get_recommendations st song_title None = get_recommendations st song_title (Some 5)"
proof -
  from assms(2) obtain idx where i: "idx < length (df_scaled st)"
    and t: "song_title = title (df_scaled st ! idx)"
    by (auto simp: in_set_conv_nth)
  let ?r = "sim_scores_sorted (similarity_matrix st ! idx)"
  from assms(3) i have len: "length ?r = length (df_scaled st)"
    by (simp add: square_of_size_def list_all_length length_sim_scores_sorted)
  have sl: "slice ?r 1 (top_n + 1) =
      (if - 1 \<le> top_n then [] else tl (take (length (df_scaled st) - nat (- top_n - 1)) ?r))"
    using slice_nonpositive[OF assms(4), of ?r] len by simp
  have res: "get_recommendations st song_title (Some top_n) =
      Titles (map (\<lambda>p. title (df_scaled st ! fst p))
        (if - 1 \<le> top_n then [] else tl (take (length (df_scaled st) - nat (- top_n - 1)) ?r)))"
    unfolding t get_recommendations_titles[OF assms(1) i assms(3)] using sl by simp
  have "length (slice ?r 1 (top_n + 1)) =
      (if - 1 \<le> top_n then 0 else nat (int (length (df_scaled st)) + top_n))"
    using length_slice_nonpositive[OF assms(4), of ?r] len by simp
  then have n: "length (map (\<lambda>p. title (df_scaled st ! fst p))
        (if - 1 \<le> top_n then [] else tl (take (length (df_scaled st) - nat (- top_n - 1)) ?r))) =
      (if - 1 \<le> top_n then 0 else nat (int (length (df_scaled st)) + top_n))"
    unfolding sl by simp
  have "get_recommendations st song_title None = get_recommendations st song_title (Some 5)"
    by (simp add: get_recommendations_def)
  with i t res n show ?thesis by blast
qed

theorem recommend_nonpositive_top_n_witness:
  "(\<exists>idx recs. idx < length (df_scaled example_state) \<and>
      title (df_scaled example_state ! idx) = ''A by X'' \<and>
      get_recommendations example_state ''A by X'' (Some (- 2)) = Titles recs \<and>
      recs = map (\<lambda>p. title (df_scaled example_state ! fst p))
        (tl (take 2 (sim_scores_sorted (similarity_matrix example_state ! idx)))) \<and>
      length recs = 1) \<and>
   get_recommendations example_state ''A by X'' (Some (- 2)) = Titles [''B by Y''] \<and>
   get_recommendations example_state ''A by X'' None =
     get_recommendations example_state ''A by X'' (Some 5)"
proof -
  have wf: "distinct (map title (df_scaled example_state))"
    "''A by X'' \<in> set (map title (df_scaled example_state))"
    "square_of_size (similarity_matrix example_state) (length (df_scaled example_state))"
    "(- 2 :: int) \<le> 0"
    by (simp_all add: example_defs square_of_size_def)
  have n: "length (df_scaled example_state) - nat (- (- 2) - 1) = 2"
    "nat (int (length (df_scaled example_state)) + (- 2)) = 1"
    by (simp_all add: example_defs)
  have e: "get_recommendations example_state ''A by X'' (Some (- 2)) = Titles [''B by Y'']"
    by (simp add: rec_defs example_defs)
  from recommend_nonpositive_top_n[OF wf] show ?thesis unfolding n using e by simp
qed

section \<open>Startup\<close>

text \<open>
  C8 as the specification has it: the loader refuses a matrix whose dimension is not the
  number of rows of the catalog. It loads a catalog of two rows with a matrix of one row
  and one column.
\<close>

theorem startup_accepts_mismatch:
  "startup (Some [song_A, song_B]) (Some [[1]]) =
     Inr \<lparr>df_scaled = [song_A, song_B], similarity_matrix = [[1]]\<rparr>"
  by (simp add: startup_def)

text \<open>
  C8, amended. The startup block fails, with the error of a missing file, exactly when the
  catalog file or the matrix file is absent; when both are present it keeps them as they
  are, whatever the shape of the matrix.
\<close>

theorem startup_fails_iff_absent:
  "(startup api_data_csv similarity_matrix_npy = Inl FileNotFoundError \<longleftrightarrow>
      api_data_csv = None \<or> similarity_matrix_npy = None) \<and>
   startup (Some df) (Some m) = Inr \<lparr>df_scaled = df, similarity_matrix = m\<rparr>"
  by (simp add: startup_def split: option.splits)

section \<open>Trending\<close>

lemma hd_sort_least:
  fixes ys :: "'a::linorder list"
  assumes "sort ys = a # rest"
  shows "a \<in> set ys \<and> (\<forall>y \<in> set ys. a \<le> y)"
proof -
  have "sorted (a # rest)" using assms sorted_sort[of ys] by simp
  moreover have "set ys = set (a # rest)" using assms set_sort[of "\<lambda>x. x" ys] by simp
  ultimately show ?thesis by auto
qed

lemma max_count_attained:
  assumes "xs \<noteq> []"
  shows "\<exists>a \<in> set xs. count_list xs a = Max (set (map (count_list xs) xs))"
proof -
  have "Max (count_list xs ` set xs) \<in> count_list xs ` set xs"
    using assms by (intro Max_in) auto
  then show ?thesis by auto
qed

text \<open>The first of the modes: a most frequent value, the least of them in string order.\<close>

lemma mode_cases:
  assumes "xs \<noteq> []"
  obtains a rest where "mode xs = a # rest" "a \<in> set xs"
    "\<forall>b \<in> set xs. count_list xs b \<le> count_list xs a"
    "\<forall>b \<in> set xs. count_list xs b = count_list xs a \<longrightarrow> a \<le> b"
proof -
  let ?m = "Max (set (map (count_list xs) xs))"
  let ?M = "remdups (filter (\<lambda>a. count_list xs a = ?m) xs)"
  from max_count_attained[OF assms] have "set ?M \<noteq> {}" by auto
  then have "sort ?M \<noteq> []" by (metis set_empty set_sort)
  then obtain a rest where ar: "sort ?M = a # rest" by (cases "sort ?M") auto
  from hd_sort_least[OF ar] have a: "a \<in> set ?M" and least: "\<forall>y \<in> set ?M. a \<le> y" by auto
  from a have ain: "a \<in> set xs" and ca: "count_list xs a = ?m" by auto
  have le: "count_list xs b \<le> ?m" if "b \<in> set xs" for b
    using that by (intro Max_ge) auto
  show thesis
  proof (rule that[of a rest])
    show "mode xs = a # rest" using ar by (simp add: mode_def)
    show "a \<in> set xs" by (rule ain)
    show "\<forall>b \<in> set xs. count_list xs b \<le> count_list xs a" using le ca by simp
    show "\<forall>b \<in> set xs. count_list xs b = count_list xs a \<longrightarrow> a \<le> b"
      using least ca by auto
  qed
qed

text \<open>
  C9 as the specification has it: of the artists values that tie for the greatest number of
  rows, the reported one is the first to occur in the catalog. In a catalog of two rows, by
  Y and by X in this order, both values occur once; the specification's choice is Y, the
  handler reports X.
\<close>

theorem most_frequent_artist_tie_counterexample:
  "get_trending tie_state = (Trending_json (''B'', ''Y'', 50) (''X'', 1), 200) \<and>
   spec_most_frequent_artist (map artists (df_scaled tie_state)) = ''Y''"
  by (simp add: get_trending_def idxmax_def mode_def value_counts_def
      spec_most_frequent_artist_def tie_state_def example_defs)

text \<open>
  C9, amended. For a catalog that is not empty, the most frequent artist that the handler
  reports is an artists value of the catalog that occurs in the greatest number of rows;
  of the values that tie for that number it is the least in string order (character by
  character, by code point); it is reported with the number of rows it occurs in.
\<close>

theorem most_frequent_artist:
  assumes "df_scaled st \<noteq> []"
  shows "\<exists>song a. get_trending st =
        (Trending_json song (a, count_list (map artists (df_scaled st)) a), 200) \<and>
      a \<in> set (map artists (df_scaled st)) \<and>
      (\<forall>b \<in> set (map artists (df_scaled st)).
         count_list (map artists (df_scaled st)) b \<le> count_list (map artists (df_scaled st)) a) \<and>
      (\<forall>b \<in> set (map artists (df_scaled st)).
         count_list (map artists (df_scaled st)) b = count_list (map artists (df_scaled st)) a
           \<longrightarrow> a \<le> b)"
proof -
  let ?A = "map artists (df_scaled st)"
  from assms have "?A \<noteq> []" by simp
  then obtain a rest where m: "mode ?A = a # rest" and a: "a \<in> set ?A"
    and most: "\<forall>b \<in> set ?A. count_list ?A b \<le> count_list ?A a"
    and least: "\<forall>b \<in> set ?A. count_list ?A b = count_list ?A a \<longrightarrow> a \<le> b"
    by (rule mode_cases)
  from assms m have "\<exists>song. get_trending st = (Trending_json song (a, count_list ?A a), 200)"
    by (simp add: get_trending_def idxmax_def value_counts_def Let_def)
  with a most least show ?thesis by blast
qed

theorem most_frequent_artist_witness:
  "\<exists>song a. get_trending tie_state =
       (Trending_json song (a, count_list [''Y'', ''X''] a), 200) \<and>
     a \<le> ''Y'' \<and> a \<le> ''X''"
proof -
  have ne: "df_scaled tie_state \<noteq> []"
    by (simp add: tie_state_def)
  have A: "map artists (df_scaled tie_state) = [''Y'', ''X'']"
    by (simp add: tie_state_def example_defs)
  from most_frequent_artist[OF ne] show ?thesis
    unfolding A by auto
qed

section \<open>Recommendations by mood\<close>

lemma satisfies_strict:
  "satisfies s cond \<longleftrightarrow>
     (case cond of (c, op, v) \<Rightarrow> (op = Gt \<and> v < cell s c) \<or> (op = Lt \<and> cell s c < v))"
  by (cases cond; cases "fst (snd cond)") auto

lemma select_songs_row:
  assumes "row \<in> set (select_songs songs conds)"
  shows "\<exists>s \<in> set songs. row = (name s, artists s, title s) \<and> list_all (satisfies s) conds"
proof -
  let ?matching = "filter (\<lambda>s. list_all (satisfies s) conds) songs"
  from assms obtain s where s: "s \<in> set (take 5 (sorted_reverse popularity ?matching))"
    and row: "row = (name s, artists s, title s)"
    by (auto simp: select_songs_def)
  from s have "s \<in> set (sorted_reverse popularity ?matching)"
    by (rule in_set_takeD)
  then have "s \<in> set songs \<and> list_all (satisfies s) conds"
    by (simp add: set_sorted_reverse)
  with row show ?thesis by blast
qed

lemma query_filter_energetic:
  "query_filter ''energetic'' = Some [(Energy, Gt, 0.8), (Tempo, Gt, 120)]"
  by (simp add: query_filter_def)

text \<open>
  C4. Every row that the handler returns for a mood is the projection of a row of the
  \<^verbatim>\<open>songs\<close> table that satisfies every condition of the mood's filter, and each condition
  is a strict comparison, greater or less, of a column with its threshold; for the mood
  energetic the row has energy above 0.8 and tempo above 120.
\<close>

theorem mood_rows_satisfy_filter:
  assumes "mood_recommendations music_db mood = (Mood_json rows, status)"
    and "row \<in> set rows"
  shows "\<exists>songs conds s. music_db = Some songs \<and> query_filter mood = Some conds \<and>
      s \<in> set songs \<and> row = (name s, artists s, title s) \<and>
      (\<forall>(c, op, v) \<in> set conds. (op = Gt \<and> v < cell s c) \<or> (op = Lt \<and> cell s c < v)) \<and>
      (mood = ''energetic'' \<longrightarrow> 0.8 < energy s \<and> 120 < tempo s)"
proof -
  from assms(1) obtain songs conds where db: "music_db = Some songs"
    and q: "query_filter mood = Some conds" and rows: "rows = select_songs songs conds"
    by (auto simp: mood_recommendations_def split: option.splits)
  from assms(2) rows obtain s where s: "s \<in> set songs" "row = (name s, artists s, title s)"
    and sat: "list_all (satisfies s) conds"
    using select_songs_row by blast
  from sat have strict:
    "\<forall>(c, op, v) \<in> set conds. (op = Gt \<and> v < cell s c) \<or> (op = Lt \<and> cell s c < v)"
    by (auto simp: list_all_iff satisfies_strict)
  have "0.8 < energy s \<and> 120 < tempo s" if "mood = ''energetic''"
    using that q sat by (auto simp: query_filter_energetic)
  with db q s strict show ?thesis by blast
qed

theorem mood_rows_satisfy_filter_witness:
  "\<exists>s. s \<in> set [song_A, song_B] \<and> (''A'', ''X'', ''A by X'') = (name s, artists s, title s) \<and>
     0.8 < energy s \<and> 120 < tempo s"
proof -
  have r: "mood_recommendations (Some [song_A, song_B]) ''energetic'' =
      (Mood_json [(''A'', ''X'', ''A by X'')], 200)"
    by (simp add: mood_recommendations_def query_filter_def select_songs_def
        sorted_reverse_def example_defs)
  have "(''A'', ''X'', ''A by X'') \<in> set [(''A'', ''X'', ''A by X'')]" by simp
  from mood_rows_satisfy_filter[OF r this] show ?thesis by auto
qed

text \<open>The eleven filters, as the conditions they put on a row.\<close>

lemma mood_filters:
  "list_all (satisfies s) (the (query_filter ''happy'')) \<longleftrightarrow>
     0.7 < valence s \<and> 0.6 < energy s \<and> 0.5 < danceability s"
  "list_all (satisfies s) (the (query_filter ''sad'')) \<longleftrightarrow>
     valence s < 0.3 \<and> energy s < 0.4 \<and> tempo s < 100"
  "list_all (satisfies s) (the (query_filter ''energetic'')) \<longleftrightarrow>
     0.8 < energy s \<and> 120 < tempo s"
  "list_all (satisfies s) (the (query_filter ''calm'')) \<longleftrightarrow>
     energy s < 0.3 \<and> tempo s < 100 \<and> 0.4 < valence s"
  "list_all (satisfies s) (the (query_filter ''romantic'')) \<longleftrightarrow>
     0.6 < valence s \<and> energy s < 0.6 \<and> speechiness s < 0.08"
  "list_all (satisfies s) (the (query_filter ''angry'')) \<longleftrightarrow>
     0.8 < energy s \<and> valence s < 0.3 \<and> 110 < tempo s"
  "list_all (satisfies s) (the (query_filter ''nostalgic'')) \<longleftrightarrow>
     0.5 < valence s \<and> energy s < 0.5 \<and> tempo s < 110"
  "list_all (satisfies s) (the (query_filter ''focused'')) \<longleftrightarrow>
     speechiness s < 0.05 \<and> energy s < 0.3 \<and> liveness s < 0.1"
  "list_all (satisfies s) (the (query_filter ''chill'')) \<longleftrightarrow>
     energy s < 0.4 \<and> tempo s < 110 \<and> liveness s < 0.2"
  "list_all (satisfies s) (the (query_filter ''workout'')) \<longleftrightarrow>
     0.75 < energy s \<and> 120 < tempo s \<and> 0.6 < danceability s"
  "list_all (satisfies s) (the (query_filter ''party'')) \<longleftrightarrow>
     0.7 < energy s \<and> 0.7 < danceability s \<and> 0.6 < valence s"
  by (simp_all add: query_filter_def)

lemma query_filter_None_iff: "query_filter mood = None \<longleftrightarrow> mood \<notin> set mood_labels"
  by (simp add: query_filter_def mood_labels_def)

lemma recommend_songs_not_invalid_mood:
  "recommend_songs st song_arg \<noteq> (Error_json ''Invalid mood provided.'', 400)"
  by (auto simp: recommend_songs_def parameter_required_def split: option.splits recs.splits)

text \<open>
  C5. The handler answers a mood with the error \<^verbatim>\<open>Invalid mood provided.\<close> (status 400)
  exactly when the mood is none of the eleven labels, compared as written. No answer of the
  handler for similar songs is this one; its answer to an unknown title has status 404.
  The empty string never reaches the mood table: the handler takes it for a missing
  parameter, every other string goes to the table.
\<close>

theorem invalid_mood_iff:
  "(mood_recommendations music_db mood = (Error_json ''Invalid mood provided.'', 400) \<longleftrightarrow>
      mood \<notin> set mood_labels) \<and>
   length mood_labels = 11 \<and> distinct mood_labels \<and>
   (mood \<noteq> [] \<longrightarrow> recommend_mood music_db (Some mood) = mood_recommendations music_db mood) \<and>
   recommend_songs st song_arg \<noteq> (Error_json ''Invalid mood provided.'', 400)"
proof -
  have "mood_recommendations music_db mood = (Error_json ''Invalid mood provided.'', 400) \<longleftrightarrow>
      query_filter mood = None"
    by (auto simp: mood_recommendations_def split: option.splits)
  moreover have "length mood_labels = 11" "distinct mood_labels"
    by (simp_all add: mood_labels_def)
  moreover have "mood \<noteq> [] \<longrightarrow>
      recommend_mood music_db (Some mood) = mood_recommendations music_db mood"
    by (simp add: recommend_mood_def)
  ultimately show ?thesis
    using query_filter_None_iff recommend_songs_not_invalid_mood by simp
qed

theorem invalid_mood_iff_witness:
  "mood_recommendations None ''Happy'' = (Error_json ''Invalid mood provided.'', 400) \<and>
   mood_recommendations None ''happy'' \<noteq> (Error_json ''Invalid mood provided.'', 400) \<and>
   recommend_mood None (Some ''Happy'') = (Error_json ''Invalid mood provided.'', 400)"
  using invalid_mood_iff[of None "''Happy''"] invalid_mood_iff[of None "''happy''"]
  by (simp add: mood_labels_def)

section \<open>The catalog build script\<close>

text \<open>
  C10. Every row of the frame that the script writes to the \<^verbatim>\<open>songs\<close> table, and so every
  row of the table, has popularity above 30; a row that is left after the removal of
  duplicates and has popularity 30 or less is not in the table.
\<close>

theorem songs_popularity_above_threshold:
  "(\<forall>s \<in> set (df_processed df). 30 < popularity s) \<and>
   (\<forall>r \<in> set (drop_duplicates_subset [] df).
      popularity r \<le> 30 \<longrightarrow> add_columns r \<notin> set (df_processed df)) \<and>
   (fix_database original_csv = Inr songs \<longrightarrow> (\<forall>s \<in> set songs. 30 < popularity s))"
proof -
  have pop: "popularity (add_columns r) = popularity r" for r
    by (simp add: add_columns_def)
  have above: "\<forall>s \<in> set (df_processed df). 30 < popularity s" for df
    by (auto simp: df_processed_def pop popularity_threshold_def)
  then have "\<forall>r \<in> set (drop_duplicates_subset [] df).
      popularity r \<le> 30 \<longrightarrow> add_columns r \<notin> set (df_processed df)"
    using pop by fastforce
  moreover have "fix_database original_csv = Inr songs \<longrightarrow> (\<forall>s \<in> set songs. 30 < popularity s)"
    using above by (auto simp: fix_database_def split: option.splits if_splits)
  ultimately show ?thesis using above by blast
qed

theorem songs_popularity_above_threshold_witness:
  "fix_database (Some example_csv) = Inr [song_B] \<and> 30 < popularity song_B \<and>
   add_columns (example_song ''A'' ''X'' 10 0.9 130) \<notin> set (df_processed example_csv)"
proof -
  have r: "fix_database (Some example_csv) = Inr [song_B]"
    by (simp add: fix_database_def df_processed_def example_csv_def example_defs
        popularity_threshold_def)
  have "example_song ''A'' ''X'' 10 0.9 130 \<in> set (drop_duplicates_subset [] example_csv)"
    by (simp add: example_csv_def example_song_def)
  with songs_popularity_above_threshold[of example_csv "Some example_csv" "[song_B]"] r
  show ?thesis by (simp add: example_song_def)
qed

end
